theory Spec2Isabelle
  imports Complex_Main "HOL-Library.AList"
begin

section \<open>Values, dictionaries and exceptions\<close>

text \<open>
  A reading arrives as a JSON object, so a value of \<open>health_data\<close> is a number, a
  string, a boolean or null. Python's \<open>int\<close> is unbounded; a \<open>float\<close> is modelled
  as an exact rational (no rounding, no NaN, no infinity). A dictionary is an association
  list read with \<open>map_of\<close>: the keys of a Python dictionary are distinct, and the
  list keeps the insertion order.
\<close>

datatype pyval = PInt int | PFloat rat | PStr string | PBool bool | PNone

type_synonym pydict = "(string \<times> pyval) list"

text \<open>
  An exception carries its class name and its message; \<open>str(e)\<close> is the message.
\<close>

datatype exn = Exception string string

fun str_exn :: "exn \<Rightarrow> string" where
  "str_exn (Exception cls msg) = msg"

fun type_name :: "pyval \<Rightarrow> string" where
  "type_name (PInt i) = ''int''"
| "type_name (PFloat r) = ''float''"
| "type_name (PStr s) = ''str''"
| "type_name (PBool b) = ''bool''"
| "type_name PNone = ''NoneType''"

text \<open>The numeric value of a number; a boolean is the integer 0 or 1.\<close>

fun num_of :: "pyval \<Rightarrow> rat option" where
  "num_of (PInt i) = Some (of_int i)"
| "num_of (PFloat r) = Some r"
| "num_of (PBool b) = Some (if b then 1 else 0)"
| "num_of (PStr s) = None"
| "num_of PNone = None"

text \<open>Strings compare lexicographically by code unit.\<close>

fun str_lt :: "string \<Rightarrow> string \<Rightarrow> bool" where
  "str_lt [] [] = False"
| "str_lt [] (c # cs) = True"
| "str_lt (c # cs) [] = False"
| "str_lt (c # cs) (d # ds) =
     (if (of_char c :: nat) < of_char d then True
      else if (of_char d :: nat) < of_char c then False
      else str_lt cs ds)"

definition not_supported :: "string \<Rightarrow> pyval \<Rightarrow> pyval \<Rightarrow> exn" where
  "not_supported opr a b =
     Exception ''TypeError''
       ([CHR 0x27] @ opr @ [CHR 0x27] @ '' not supported between instances of ''
        @ [CHR 0x27] @ type_name a @ [CHR 0x27] @ '' and ''
        @ [CHR 0x27] @ type_name b @ [CHR 0x27])"

text \<open>\<open>a < b\<close> and \<open>a > b\<close>: defined between two numbers and between two strings,
  a \<open>TypeError\<close> otherwise.\<close>

definition py_lt :: "pyval \<Rightarrow> pyval \<Rightarrow> exn + bool" where
  "py_lt a b =
     (case (num_of a, num_of b) of
        (Some x, Some y) \<Rightarrow> Inr (x < y)
      | _ \<Rightarrow>
        (case (a, b) of
           (PStr s, PStr t) \<Rightarrow> Inr (str_lt s t)
         | _ \<Rightarrow> Inl (not_supported ''<'' a b)))"

definition py_gt :: "pyval \<Rightarrow> pyval \<Rightarrow> exn + bool" where
  "py_gt a b =
     (case (num_of a, num_of b) of
        (Some x, Some y) \<Rightarrow> Inr (x > y)
      | _ \<Rightarrow>
        (case (a, b) of
           (PStr s, PStr t) \<Rightarrow> Inr (str_lt t s)
         | _ \<Rightarrow> Inl (not_supported ''>'' a b)))"

section \<open>Threshold evaluation\<close>

text \<open>
  \<open>HealthMonitor.critical_thresholds\<close>, in the order the constructor writes it.
\<close>

record thresholds =
  t_min :: pyval
  t_max :: pyval

definition critical_thresholds :: "(string \<times> thresholds) list" where
  "critical_thresholds =
     [(''heart_rate'', \<lparr>t_min = PInt 40, t_max = PInt 150\<rparr>),
      (''temperature'', \<lparr>t_min = PFloat 35, t_max = PFloat 39\<rparr>),
      (''systolic_bp'', \<lparr>t_min = PInt 80, t_max = PInt 180\<rparr>),
      (''diastolic_bp'', \<lparr>t_min = PInt 50, t_max = PInt 110\<rparr>),
      (''spo2'', \<lparr>t_min = PInt 90, t_max = PInt 100\<rparr>),
      (''respiratory_rate'', \<lparr>t_min = PInt 8, t_max = PInt 30\<rparr>)]"

record alert =
  a_type :: string
  a_vital_sign :: string
  a_current_value :: pyval
  a_threshold :: pyval
  a_severity :: string
  a_message :: string

text \<open>
  \<open>_check_immediate_alerts\<close>. The first argument is Python's formatting of a value
  inside an f-string, a builtin. The loop runs over the table; a comparison that raises
  aborts the whole check.
\<close>

fun check_immediate_alerts ::
  "(pyval \<Rightarrow> string) \<Rightarrow> (string \<times> thresholds) list \<Rightarrow> pydict \<Rightarrow> exn + alert list" where
  "check_immediate_alerts fmt [] health_data = Inr []"
| "check_immediate_alerts fmt ((vital, th) # rest) health_data =
     (case map_of health_data vital of
        None \<Rightarrow> check_immediate_alerts fmt rest health_data
      | Some v \<Rightarrow>
        (case py_lt v (t_min th) of
           Inl e \<Rightarrow> Inl e
         | Inr True \<Rightarrow>
             map_sum id
               (Cons \<lparr>a_type = ''critical_low'', a_vital_sign = vital, a_current_value = v,
                      a_threshold = t_min th, a_severity = ''critical'',
                      a_message = vital @ '' critically low: '' @ fmt v\<rparr>)
               (check_immediate_alerts fmt rest health_data)
         | Inr False \<Rightarrow>
           (case py_gt v (t_max th) of
              Inl e \<Rightarrow> Inl e
            | Inr True \<Rightarrow>
                map_sum id
                  (Cons \<lparr>a_type = ''critical_high'', a_vital_sign = vital, a_current_value = v,
                         a_threshold = t_max th, a_severity = ''critical'',
                         a_message = vital @ '' critically high: '' @ fmt v\<rparr>)
                  (check_immediate_alerts fmt rest health_data)
            | Inr False \<Rightarrow> check_immediate_alerts fmt rest health_data)))"

section \<open>Scorer results\<close>

text \<open>
  The three scorers return dictionaries of a fixed shape (\<open>predict_anomaly\<close>,
  \<open>predict_emergency\<close>, \<open>predict_risk\<close>, and the simulation's
  \<open>_simulate_ai_analysis\<close>, which leaves some keys out). A key that the monitor reads
  with \<open>.get\<close> or tests with \<open>in\<close> is an optional field. A result that is present
  is a non-empty dictionary, hence true in a condition; \<open>None\<close> is the absent result.
\<close>

record anomaly_result =
  an_is_anomaly :: "bool option"
  an_risk_score :: "rat option"
  an_risk_level :: "string option"
  an_confidence :: "rat option"
  an_recommendations :: "string list option"

record top_prediction =
  tp_type :: string
  tp_probability :: rat
  tp_confidence :: string

record emergency_result =
  em_predicted_emergency :: "string option"
  em_confidence :: "rat option"
  em_severity :: "string option"
  em_top_predictions :: "top_prediction list option"
  em_recommended_actions :: "string list option"

record window_prediction =
  wp_risk_score :: rat
  wp_risk_level :: string
  wp_probability :: rat

record risk_factor =
  rf_factor :: string
  rf_importance :: rat
  rf_current_value :: rat
  rf_concern_level :: string

record risk_result =
  rk_overall_risk_score :: "rat option"
  rk_risk_level :: "string option"
  rk_confidence :: "rat option"
  rk_time_predictions :: "(string \<times> window_prediction) list option"
  rk_key_risk_factors :: "risk_factor list option"
  rk_recommendations :: "string list option"

text \<open>\<open>d.get(key, default)\<close> on an optional field.\<close>

definition get_or :: "'a option \<Rightarrow> 'a \<Rightarrow> 'a" where
  "get_or field dflt = (case field of None \<Rightarrow> dflt | Some v \<Rightarrow> v)"

section \<open>Fusion\<close>

record overall_status =
  os_level :: string
  os_severity :: string
  os_confidence :: rat
  os_primary_concern :: "string option"
  os_summary :: string

text \<open>\<open>s.replace('_', ' ')\<close>\<close>

definition replace_underscores :: "string \<Rightarrow> string" where
  "replace_underscores s = map (\<lambda>c. if c = CHR ''_'' then CHR '' '' else c) s"

text \<open>The \<open>severity_map\<close> of rule 2 with its \<open>.get(..., 'medium')\<close>.\<close>

definition severity_map_get :: "string \<Rightarrow> string" where
  "severity_map_get s =
     (if s = ''critical'' then ''critical''
      else if s = ''high'' then ''high''
      else if s = ''medium'' then ''medium''
      else if s = ''low'' then ''low''
      else ''medium'')"

text \<open>
  \<open>_determine_overall_status\<close>. The first argument formats a number with \<open>:.2f\<close>.
  Each rule that fires returns at once.
\<close>

definition determine_overall_status ::
  "(rat \<Rightarrow> string) \<Rightarrow> alert list \<Rightarrow> anomaly_result option \<Rightarrow> emergency_result option
     \<Rightarrow> risk_result option \<Rightarrow> overall_status" where
  "determine_overall_status fmt2 immediate_alerts anomaly_result emergency_result risk_result =
     (let status = \<lparr>os_level = ''normal'', os_severity = ''normal'', os_confidence = 8 / 10,
                     os_primary_concern = None,
                     os_summary = ''All vital signs within normal range''\<rparr>;
          critical_alerts = filter (\<lambda>a. a_severity a = ''critical'') immediate_alerts;
          emergency_type = (case emergency_result of None \<Rightarrow> ''normal''
                            | Some r \<Rightarrow> get_or (em_predicted_emergency r) ''normal'');
          confidence = (case emergency_result of None \<Rightarrow> 0
                        | Some r \<Rightarrow> get_or (em_confidence r) 0);
          emergency_severity = (case emergency_result of None \<Rightarrow> ''medium''
                                | Some r \<Rightarrow> get_or (em_severity r) ''medium'');
          is_anomaly = (case anomaly_result of None \<Rightarrow> False
                        | Some r \<Rightarrow> get_or (an_is_anomaly r) False);
          an_level = (case anomaly_result of None \<Rightarrow> ''normal''
                      | Some r \<Rightarrow> get_or (an_risk_level r) ''normal'');
          risk_score = (case risk_result of None \<Rightarrow> 0
                        | Some r \<Rightarrow> get_or (rk_overall_risk_score r) 0);
          rk_level = (case risk_result of None \<Rightarrow> ''minimal''
                      | Some r \<Rightarrow> get_or (rk_risk_level r) ''minimal'')
      in
      if immediate_alerts \<noteq> [] \<and> critical_alerts \<noteq> [] then
        status\<lparr>os_level := ''emergency'', os_severity := ''critical'',
               os_confidence := 95 / 100,
               os_primary_concern := Some (a_message (hd critical_alerts)),
               os_summary :=
                 ''Critical vital signs detected - immediate medical attention required''\<rparr>
      else if emergency_result \<noteq> None \<and> emergency_type \<noteq> ''normal'' \<and> confidence > 7 / 10 then
        status\<lparr>os_level := (if emergency_severity = ''critical'' then ''emergency''
                             else ''warning''),
               os_severity := severity_map_get emergency_severity,
               os_confidence := confidence,
               os_primary_concern :=
                 Some (''Potential '' @ replace_underscores emergency_type @ '' detected''),
               os_summary := ''Emergency classification: '' @ emergency_type
                   @ '' (confidence: '' @ fmt2 confidence @ '')''\<rparr>
      else if anomaly_result \<noteq> None \<and> is_anomaly \<and> an_level \<in> set [''high'', ''critical''] then
        status\<lparr>os_level := ''warning'', os_severity := an_level,
               os_confidence := get_or (an_confidence (the anomaly_result)) (7 / 10),
               os_primary_concern := Some ''Abnormal vital sign patterns detected'',
               os_summary := ''Health anomaly detected - risk level: '' @ an_level\<rparr>
      else if risk_result \<noteq> None \<and> risk_score > 6 / 10 then
        status\<lparr>os_level := ''caution'', os_severity := rk_level,
               os_confidence := get_or (rk_confidence (the risk_result)) (7 / 10),
               os_primary_concern := Some ''Elevated risk for future health events'',
               os_summary := ''Increased health risk detected - level: '' @ rk_level\<rparr>
      else status)"

text \<open>
  The loop of \<open>_combine_analysis_results\<close> that removes duplicates: a recommendation is
  appended to \<open>unique_recommendations\<close> unless it is already there.
\<close>

fun unique_recommendations :: "string list \<Rightarrow> string list \<Rightarrow> string list" where
  "unique_recommendations acc [] = acc"
| "unique_recommendations acc (r # rs) =
     (if r \<in> set acc then unique_recommendations acc rs
      else unique_recommendations (acc @ [r]) rs)"

record anomaly_detection =
  ad_is_anomaly :: bool
  ad_risk_score :: rat
  ad_risk_level :: string

record emergency_classification =
  ec_predicted_emergency :: string
  ec_confidence :: rat
  ec_severity :: string
  ec_top_predictions :: "top_prediction list"

record risk_prediction =
  rp_overall_risk_score :: rat
  rp_risk_level :: string
  rp_time_predictions :: "(string \<times> window_prediction) list"
  rp_key_risk_factors :: "risk_factor list"

text \<open>
  The dictionary an analysis returns. A key that only some of the paths write is an
  optional field.
\<close>

record analysis =
  current_vitals :: "pydict option"
  overall_status :: overall_status
  immediate_alerts :: "alert list"
  recommendations :: "string list"
  requires_emergency_response :: bool
  confidence_score :: rat
  anomaly_detection :: "anomaly_detection option"
  emergency_classification :: "emergency_classification option"
  risk_prediction :: "risk_prediction option"
  device_id :: "string option"
  analysis_timestamp :: "string option"
  processing_time_ms :: "rat option"
  ai_models_enabled :: "bool option"
  simulation_mode :: "bool option"
  error :: "string option"

text \<open>The list \<open>all_recommendations\<close> of \<open>_combine_analysis_results\<close>.\<close>

definition all_recommendations ::
  "alert list \<Rightarrow> anomaly_result option \<Rightarrow> emergency_result option \<Rightarrow> risk_result option
     \<Rightarrow> string list" where
  "all_recommendations alerts anomaly_result emergency_result risk_result =
     (if alerts \<noteq> [] then [''IMMEDIATE MEDICAL ATTENTION REQUIRED''] else [])
     @ (case anomaly_result of None \<Rightarrow> []
        | Some r \<Rightarrow> (case an_recommendations r of None \<Rightarrow> [] | Some recs \<Rightarrow> recs))
     @ (case emergency_result of None \<Rightarrow> []
        | Some r \<Rightarrow> (case em_recommended_actions r of None \<Rightarrow> [] | Some recs \<Rightarrow> recs))
     @ (case risk_result of None \<Rightarrow> []
        | Some r \<Rightarrow> (case rk_recommendations r of None \<Rightarrow> [] | Some recs \<Rightarrow> recs))"

text \<open>\<open>_combine_analysis_results\<close>\<close>

definition combine_analysis_results ::
  "(rat \<Rightarrow> string) \<Rightarrow> pydict \<Rightarrow> alert list \<Rightarrow> anomaly_result option
     \<Rightarrow> emergency_result option \<Rightarrow> risk_result option \<Rightarrow> analysis" where
  "combine_analysis_results fmt2 health_data alerts anomaly_result emergency_result risk_result =
     (let status = determine_overall_status fmt2 alerts anomaly_result emergency_result
                     risk_result;
          uniq = unique_recommendations []
                   (all_recommendations alerts anomaly_result emergency_result risk_result)
      in \<lparr>current_vitals = Some health_data,
          overall_status = status,
          immediate_alerts = alerts,
          recommendations = take 10 uniq,
          requires_emergency_response = (os_severity status \<in> set [''critical'', ''high'']),
          confidence_score = os_confidence status,
          anomaly_detection =
            map_option (\<lambda>r. \<lparr>ad_is_anomaly = get_or (an_is_anomaly r) False,
                               ad_risk_score = get_or (an_risk_score r) 0,
                               ad_risk_level = get_or (an_risk_level r) ''unknown''\<rparr>)
              anomaly_result,
          emergency_classification =
            map_option (\<lambda>r. \<lparr>ec_predicted_emergency =
                                 get_or (em_predicted_emergency r) ''unknown'',
                               ec_confidence = get_or (em_confidence r) 0,
                               ec_severity = get_or (em_severity r) ''unknown'',
                               ec_top_predictions = get_or (em_top_predictions r) []\<rparr>)
              emergency_result,
          risk_prediction =
            map_option (\<lambda>r. \<lparr>rp_overall_risk_score = get_or (rk_overall_risk_score r) 0,
                               rp_risk_level = get_or (rk_risk_level r) ''unknown'',
                               rp_time_predictions = get_or (rk_time_predictions r) [],
                               rp_key_risk_factors = get_or (rk_key_risk_factors r) []\<rparr>)
              risk_result,
          device_id = None, analysis_timestamp = None, processing_time_ms = None,
          ai_models_enabled = None, simulation_mode = None, error = None\<rparr>)"

text \<open>
  \<open>_create_error_response\<close>. \<open>now\<close> is the clock's reading, already formatted with
  \<open>isoformat\<close>.
\<close>

definition create_error_response :: "bool \<Rightarrow> string \<Rightarrow> string \<Rightarrow> string \<Rightarrow> analysis" where
  "create_error_response enable_ai now dev error_message =
     \<lparr>current_vitals = None,
      overall_status =
        \<lparr>os_level = ''error'', os_severity = ''unknown'', os_confidence = 0,
         os_primary_concern = Some ''Analysis failed'',
         os_summary = ''Health analysis error: '' @ error_message\<rparr>,
      immediate_alerts = [],
      recommendations = [''Contact technical support'', ''Retry health monitoring''],
      requires_emergency_response = False,
      confidence_score = 0,
      anomaly_detection = None, emergency_classification = None, risk_prediction = None,
      device_id = Some dev,
      analysis_timestamp = Some now,
      processing_time_ms = None,
      ai_models_enabled = Some enable_ai,
      simulation_mode = None,
      error = Some error_message\<rparr>"

section \<open>The history store\<close>

text \<open>
  \<open>xs[i:]\<close> for a list: a negative index counts from the end, and an index beyond
  either end is clipped.
\<close>

definition slice_from :: "int \<Rightarrow> 'a list \<Rightarrow> 'a list" where
  "slice_from i xs =
     (if i < 0 then drop (nat (max 0 (int (length xs) + i))) xs else drop (nat i) xs)"

text \<open>
  A scorer is an object of another module: whether it is trained, and its prediction,
  which may raise. The risk predictor also reads the device's history.
\<close>

record anomaly_detector =
  ad_is_trained :: bool
  predict_anomaly :: "pydict \<Rightarrow> exn + anomaly_result"

record emergency_classifier =
  ec_is_trained :: bool
  predict_emergency :: "pydict \<Rightarrow> exn + emergency_result"

record risk_predictor =
  rp_is_trained :: bool
  predict_risk :: "pydict \<Rightarrow> pydict list \<Rightarrow> exn + risk_result"

text \<open>
  The state of a \<open>HealthMonitor\<close>. \<open>health_history\<close> maps a device to its stored
  readings, oldest first; the constructor starts it empty.
\<close>

record monitor =
  enable_ai_models :: bool
  the_anomaly_detector :: "anomaly_detector option"
  the_emergency_classifier :: "emergency_classifier option"
  the_risk_predictor :: "risk_predictor option"
  health_history :: "string \<rightharpoonup> pydict list"
  the_critical_thresholds :: "(string \<times> thresholds) list"

text \<open>
  \<open>_store_health_data\<close>; \<open>now\<close> is \<open>datetime.now().isoformat()\<close>. The reading is
  stored with its timestamp (\<open>{**health_data, 'timestamp': now}\<close>), and the list is cut
  back to its last 100 entries when it is longer.
\<close>

definition store_health_data :: "string \<Rightarrow> monitor \<Rightarrow> string \<Rightarrow> pydict \<Rightarrow> monitor" where
  "store_health_data now m dev health_data =
     (let history = (case health_history m dev of None \<Rightarrow> [] | Some xs \<Rightarrow> xs);
          timestamped_data = AList.update ''timestamp'' (PStr now) health_data;
          appended = history @ [timestamped_data]
      in m\<lparr>health_history := (health_history m)
             (dev \<mapsto> (if length appended > 100 then slice_from (- 100) appended
                        else appended))\<rparr>)"

text \<open>
  The service keeps a second store of the same shape, \<open>recent_health_data\<close>, filled at
  the start of its \<open>analyze_health_data\<close> endpoint with
  \<open>{'timestamp': now, **health_data}\<close>: a timestamp of the reading itself wins.
\<close>

definition store_recent ::
  "string \<Rightarrow> (string \<rightharpoonup> pydict list) \<Rightarrow> string \<Rightarrow> pydict \<Rightarrow> (string \<rightharpoonup> pydict list)" where
  "store_recent now recent_health_data patient_id health_data =
     (let history = (case recent_health_data patient_id of None \<Rightarrow> [] | Some xs \<Rightarrow> xs);
          entry = (''timestamp'',
                   (case map_of health_data ''timestamp'' of None \<Rightarrow> PStr now | Some v \<Rightarrow> v))
                  # AList.delete ''timestamp'' health_data;
          appended = history @ [entry]
      in recent_health_data
           (patient_id \<mapsto> (if length appended > 100 then slice_from (- 100) appended
                             else appended)))"

section \<open>The analysis\<close>

text \<open>
  What the analysis takes from outside: the formatting builtins (a value inside an
  f-string, and a number under \<open>:.2f\<close>) and the readings of the clock, one for each
  call of \<open>datetime.now()\<close>. A reading of the clock is its time in seconds together
  with the text \<open>isoformat()\<close> gives for it.
\<close>

record builtins =
  fmt_value :: "pyval \<Rightarrow> string"
  fmt_2f :: "rat \<Rightarrow> string"

record instant =
  seconds :: rat
  isoformat :: string

record clock =
  t_start :: instant
  t_store :: instant
  t_end :: instant
  t_error :: instant

text \<open>
  The body of the \<open>try\<close> of \<open>HealthMonitor.analyze_health_data\<close>: the monitor after
  it, and the analysis or the exception that ended it. The reading is stored before
  anything can raise, so it stays stored.
\<close>

definition analyze_try ::
  "builtins \<Rightarrow> clock \<Rightarrow> monitor \<Rightarrow> string \<Rightarrow> pydict \<Rightarrow> monitor \<times> (exn + analysis)" where
  "analyze_try b clk m dev health_data =
     (let m1 = store_health_data (isoformat (t_store clk)) m dev health_data
      in (m1,
          case check_immediate_alerts (fmt_value b) (the_critical_thresholds m1) health_data of
            Inl e \<Rightarrow> Inl e
          | Inr alerts \<Rightarrow>
            (case (case the_anomaly_detector m1 of
                     Some d \<Rightarrow> if enable_ai_models m1 \<and> ad_is_trained d
                               then map_sum id Some (predict_anomaly d health_data)
                               else Inr None
                   | None \<Rightarrow> Inr None) of
               Inl e \<Rightarrow> Inl e
             | Inr anomaly_result \<Rightarrow>
               (case (case the_emergency_classifier m1 of
                        Some c \<Rightarrow> if enable_ai_models m1 \<and> ec_is_trained c
                                  then map_sum id Some (predict_emergency c health_data)
                                  else Inr None
                      | None \<Rightarrow> Inr None) of
                  Inl e \<Rightarrow> Inl e
                | Inr emergency_result \<Rightarrow>
                  (case (case the_risk_predictor m1 of
                           Some p \<Rightarrow> if enable_ai_models m1 \<and> rp_is_trained p
                                     then map_sum id Some
                                            (predict_risk p health_data
                                               (case health_history m1 dev of
                                                  None \<Rightarrow> [] | Some xs \<Rightarrow> xs))
                                     else Inr None
                         | None \<Rightarrow> Inr None) of
                     Inl e \<Rightarrow> Inl e
                   | Inr risk_result \<Rightarrow>
                       Inr ((combine_analysis_results (fmt_2f b) health_data alerts
                               anomaly_result emergency_result risk_result)
                            \<lparr>device_id := Some dev,
                             analysis_timestamp := Some (isoformat (t_start clk)),
                             processing_time_ms :=
                               Some ((seconds (t_end clk) - seconds (t_start clk)) * 1000),
                             ai_models_enabled := Some (enable_ai_models m1)\<rparr>))))))"

text \<open>
  \<open>HealthMonitor.analyze_health_data\<close>: the \<open>except Exception\<close> clause turns the
  exception into the error response.
\<close>

definition analyze_health_data ::
  "builtins \<Rightarrow> clock \<Rightarrow> monitor \<Rightarrow> string \<Rightarrow> pydict \<Rightarrow> analysis \<times> monitor" where
  "analyze_health_data b clk m dev health_data =
     (case analyze_try b clk m dev health_data of
        (m1, Inr analysis_result) \<Rightarrow> (analysis_result, m1)
      | (m1, Inl e) \<Rightarrow>
          (create_error_response (enable_ai_models m1) (isoformat (t_error clk)) dev
             (str_exn e), m1))"

text \<open>
  The constructor: an empty history and the table of critical thresholds. The scorers are
  what \<open>_initialize_ai_models\<close> could load, if anything.
\<close>

definition new_monitor ::
  "bool \<Rightarrow> anomaly_detector option \<Rightarrow> emergency_classifier option \<Rightarrow> risk_predictor option
     \<Rightarrow> monitor" where
  "new_monitor enable d c p =
     \<lparr>enable_ai_models = enable, the_anomaly_detector = d, the_emergency_classifier = c,
      the_risk_predictor = p, health_history = Map.empty,
      the_critical_thresholds = critical_thresholds\<rparr>"

text \<open>A run of stores, for the history of a device after any number of appends.\<close>

fun store_all :: "monitor \<Rightarrow> (string \<times> string \<times> pydict) list \<Rightarrow> monitor" where
  "store_all m [] = m"
| "store_all m ((now, dev, health_data) # rest) =
     store_all (store_health_data now m dev health_data) rest"

fun store_recent_all ::
  "(string \<rightharpoonup> pydict list) \<Rightarrow> (string \<times> string \<times> pydict) list \<Rightarrow> (string \<rightharpoonup> pydict list)" where
  "store_recent_all h [] = h"
| "store_recent_all h ((now, patient_id, health_data) # rest) =
     store_recent_all (store_recent now h patient_id health_data) rest"

section \<open>Risk windows (\<open>RiskPredictor\<close>)\<close>

text \<open>\<open>_determine_risk_level\<close>\<close>

definition determine_risk_level :: "rat \<Rightarrow> string" where
  "determine_risk_level risk_score =
     (if risk_score \<ge> 8 / 10 then ''critical''
      else if risk_score \<ge> 6 / 10 then ''high''
      else if risk_score \<ge> 4 / 10 then ''medium''
      else if risk_score \<ge> 2 / 10 then ''low''
      else ''minimal'')"

text \<open>\<open>str\<close> of an integer, for the key \<open>f'{window}h'\<close>.\<close>

fun str_nat :: "nat \<Rightarrow> string" where
  "str_nat n =
     (if n < 10 then [char_of (48 + n)] else str_nat (n div 10) @ [char_of (48 + n mod 10)])"

definition str_int :: "int \<Rightarrow> string" where
  "str_int i = (if i < 0 then CHR ''-'' # str_nat (nat (- i)) else str_nat (nat i))"

definition prediction_windows :: "int list" where
  "prediction_windows = [1, 6, 12, 24]"

text \<open>
  \<open>_calculate_time_predictions\<close>: the loop writes one entry of the dictionary for each
  window, under the key \<open>f'{window}h'\<close>.
\<close>

definition windowed_risk :: "rat \<Rightarrow> int \<Rightarrow> rat" where
  "windowed_risk base_risk window =
     (let time_factor = 1 + (of_int window / 24) * (1 / 10)
      in min (95 / 100) (base_risk * time_factor))"

definition calculate_time_predictions :: "int list \<Rightarrow> rat \<Rightarrow> (string \<times> window_prediction) list" where
  "calculate_time_predictions windows base_risk =
     foldl (\<lambda>predictions window.
              AList.update (str_int window @ ''h'')
                \<lparr>wp_risk_score = windowed_risk base_risk window,
                 wp_risk_level = determine_risk_level (windowed_risk base_risk window),
                 wp_probability = windowed_risk base_risk window * 100\<rparr>
                predictions)
       [] windows"

section \<open>Risk forecast and trends over a history\<close>

text \<open>\<open>any(v > bound for v in values)\<close> and \<open>any(v < bound for v in values)\<close>: the
  generator stops at the first true comparison, and a comparison may raise.\<close>

fun any_gt :: "pyval list \<Rightarrow> pyval \<Rightarrow> exn + bool" where
  "any_gt [] bound = Inr False"
| "any_gt (v # vs) bound =
     (case py_gt v bound of Inl e \<Rightarrow> Inl e | Inr True \<Rightarrow> Inr True
      | Inr False \<Rightarrow> any_gt vs bound)"

fun any_lt :: "pyval list \<Rightarrow> pyval \<Rightarrow> exn + bool" where
  "any_lt [] bound = Inr False"
| "any_lt (v # vs) bound =
     (case py_lt v bound of Inl e \<Rightarrow> Inl e | Inr True \<Rightarrow> Inr True
      | Inr False \<Rightarrow> any_lt vs bound)"

text \<open>\<open>[d.get(key, default) for d in data]\<close>\<close>

definition column :: "string \<Rightarrow> pyval \<Rightarrow> pydict list \<Rightarrow> pyval list" where
  "column key dflt data = map (\<lambda>d. get_or (map_of d key) dflt) data"

text \<open>\<open>_get_risk_recommendations\<close>\<close>

definition get_risk_recommendations :: "string \<Rightarrow> string list \<Rightarrow> string list" where
  "get_risk_recommendations risk_level risk_factors =
     (if risk_level = ''high''
      then [''Immediate medical attention recommended'',
            ''Contact emergency services if symptoms worsen'']
      else if risk_level = ''medium''
      then [''Monitor vitals closely'', ''Consider consulting healthcare provider'']
      else [])
     @ (if ''elevated_heart_rate'' \<in> set risk_factors
        then [''Reduce physical activity and stress''] else [])
     @ (if ''fever_pattern'' \<in> set risk_factors
        then [''Stay hydrated and monitor temperature''] else [])
     @ (if ''hypertension_risk'' \<in> set risk_factors
        then [''Reduce sodium intake and monitor blood pressure''] else [])
     @ (if ''respiratory_concern'' \<in> set risk_factors
        then [''Ensure adequate ventilation and avoid pollutants''] else [])"

text \<open>The dictionary \<open>predict_health_risks\<close> returns, on each of its three paths.\<close>

record risk_forecast =
  overall_risk :: string
  risk_score :: rat
  message :: "string option"
  risk_factors :: "string list option"
  forecast_recommendations :: "string list option"
  prediction_confidence :: "rat option"
  data_points_analyzed :: "nat option"

text \<open>
  The body of the \<open>try\<close> of \<open>predict_health_risks\<close>. Each of the four checks reads
  the last ten readings, and adds its factor and its weight when it fires.
\<close>

definition predict_try :: "pydict list \<Rightarrow> exn + risk_forecast" where
  "predict_try patient_data =
     (if length patient_data < 5 then
        Inr \<lparr>overall_risk = ''insufficient_data'', risk_score = 0,
             message = Some ''Need at least 5 data points for risk prediction'',
             risk_factors = None, forecast_recommendations = None,
             prediction_confidence = None, data_points_analyzed = None\<rparr>
      else
        (let recent = slice_from (- 10) patient_data in
         case any_gt (column ''heartRate'' (PInt 0) recent) (PInt 120) of
           Inl e \<Rightarrow> Inl e
         | Inr hr \<Rightarrow>
           (case any_gt (column ''temperature'' (PFloat (365 / 10)) recent) (PFloat 38) of
              Inl e \<Rightarrow> Inl e
            | Inr temp \<Rightarrow>
              (case any_gt (column ''bloodPressureSystolic'' (PInt 120) recent) (PInt 160) of
                 Inl e \<Rightarrow> Inl e
               | Inr sys \<Rightarrow>
                 (case any_lt (column ''oxygenSaturation'' (PInt 98) recent) (PInt 94) of
                    Inl e \<Rightarrow> Inl e
                  | Inr spo2 \<Rightarrow>
                    (let factors =
                           (if hr then [''elevated_heart_rate''] else [])
                           @ (if temp then [''fever_pattern''] else [])
                           @ (if sys then [''hypertension_risk''] else [])
                           @ (if spo2 then [''respiratory_concern''] else []);
                         score = (if hr then 2 / 10 else 0) + (if temp then 3 / 10 else 0)
                               + (if sys then 4 / 10 else 0) + (if spo2 then 5 / 10 else 0);
                         risk = (if score \<ge> 7 / 10 then ''high''
                                 else if score \<ge> 4 / 10 then ''medium''
                                 else if score \<ge> 2 / 10 then ''low''
                                 else ''minimal'')
                     in Inr \<lparr>overall_risk = risk, risk_score = min score 1,
                             message = None,
                             risk_factors = Some factors,
                             forecast_recommendations =
                               Some (get_risk_recommendations risk factors),
                             prediction_confidence = Some (75 / 100),
                             data_points_analyzed = Some (length patient_data)\<rparr>))))))"

text \<open>
  \<open>predict_health_risks\<close>: the \<open>except Exception\<close> clause returns the error
  dictionary.
\<close>

definition predict_health_risks :: "pydict list \<Rightarrow> risk_forecast" where
  "predict_health_risks patient_data =
     (case predict_try patient_data of
        Inr r \<Rightarrow> r
      | Inl e \<Rightarrow>
          \<lparr>overall_risk = ''error'', risk_score = 0,
           message = Some (''Risk prediction failed: '' @ str_exn e),
           risk_factors = None, forecast_recommendations = None,
           prediction_confidence = None, data_points_analyzed = None\<rparr>)"

text \<open>
  \<open>sum(values)\<close>: the sum starts at the integer 0 and stays a number; adding a string
  or \<open>None\<close> to it raises. The sum of integers and booleans is an integer.
\<close>

definition unsupported_operand :: "pyval \<Rightarrow> pyval \<Rightarrow> exn" where
  "unsupported_operand a b =
     Exception ''TypeError''
       (''unsupported operand type(s) for +: '' @ [CHR 0x27] @ type_name a @ [CHR 0x27]
        @ '' and '' @ [CHR 0x27] @ type_name b @ [CHR 0x27])"

fun add_number :: "pyval \<Rightarrow> pyval \<Rightarrow> exn + pyval" where
  "add_number (PInt a) (PInt b) = Inr (PInt (a + b))"
| "add_number (PInt a) (PBool b) = Inr (PInt (a + (if b then 1 else 0)))"
| "add_number (PInt a) (PFloat b) = Inr (PFloat (of_int a + b))"
| "add_number (PFloat a) (PInt b) = Inr (PFloat (a + of_int b))"
| "add_number (PFloat a) (PBool b) = Inr (PFloat (a + (if b then 1 else 0)))"
| "add_number (PFloat a) (PFloat b) = Inr (PFloat (a + b))"
| "add_number a b = Inl (unsupported_operand a b)"

fun sum_from :: "pyval \<Rightarrow> pyval list \<Rightarrow> exn + pyval" where
  "sum_from acc [] = Inr acc"
| "sum_from acc (v # vs) =
     (case add_number acc v of Inl e \<Rightarrow> Inl e | Inr acc' \<Rightarrow> sum_from acc' vs)"

definition py_sum :: "pyval list \<Rightarrow> exn + pyval" where
  "py_sum values = sum_from (PInt 0) values"

text \<open>The mean \<open>sum(values) / len(values)\<close> of a non-empty list, a float.\<close>

definition mean_of :: "pyval list \<Rightarrow> exn + rat" where
  "mean_of values =
     (case py_sum values of
        Inl e \<Rightarrow> Inl e
      | Inr sum_values \<Rightarrow>
          if values = [] then Inl (Exception ''ZeroDivisionError'' ''division by zero'')
          else Inr (the (num_of sum_values) / of_nat (length values)))"

record trend =
  direction :: string
  change :: "rat option"
  change_percent :: "rat option"
  recent_average :: "rat option"
  historical_average :: "rat option"

text \<open>
  \<open>_calculate_trend\<close>. The first argument is \<open>round(x, 2)\<close>, a builtin. The direction
  it returns is the quality of the trend: a rising series is \<open>concerning\<close>, a falling
  one \<open>improving\<close>.
\<close>

definition calculate_trend :: "(rat \<Rightarrow> rat) \<Rightarrow> pyval list \<Rightarrow> exn + trend" where
  "calculate_trend round2 values =
     (if length values < 2 then
        Inr \<lparr>direction = ''unknown'', change = Some 0, change_percent = None,
             recent_average = None, historical_average = None\<rparr>
      else
        (case mean_of (slice_from (- 3) values) of
           Inl e \<Rightarrow> Inl e
         | Inr recent_avg \<Rightarrow>
           (case mean_of (take 3 values) of
              Inl e \<Rightarrow> Inl e
            | Inr older_avg \<Rightarrow>
              (let pct = (if older_avg \<noteq> 0
                          then ((recent_avg - older_avg) / older_avg) * 100 else 0);
                   dir = (if \<bar>pct\<bar> < 5 then ''stable''
                          else if pct > 0 then ''increasing'' else ''decreasing'');
                   trend_quality = (if dir = ''increasing'' then ''concerning''
                                    else if dir = ''decreasing'' then ''improving''
                                    else ''stable'')
               in Inr \<lparr>direction = trend_quality, change = None,
                       change_percent = Some (round2 pct),
                       recent_average = Some (round2 recent_avg),
                       historical_average = Some (round2 older_avg)\<rparr>))))"

text \<open>The dictionary \<open>analyze_health_trends\<close> returns, on each of its three paths.\<close>

record trend_summary =
  improving :: nat
  stable :: nat
  declining :: nat

record trend_analysis =
  status :: "string option"
  trend_message :: "string option"
  overall_trajectory :: "string option"
  vital_trends :: "(string \<times> trend) list option"
  summary_of_trends :: "trend_summary option"
  analysis_period :: "nat option"
  last_updated :: "string option"

text \<open>\<open>[d.get(vital, 0) for d in patient_data if vital in d]\<close>\<close>

definition present_values :: "string \<Rightarrow> pydict list \<Rightarrow> pyval list" where
  "present_values vital patient_data =
     map (\<lambda>d. get_or (map_of d vital) (PInt 0))
       (filter (\<lambda>d. map_of d vital \<noteq> None) patient_data)"

text \<open>The loop over the four vitals: a vital with at least five values gets a trend.\<close>

fun vital_trends_of ::
  "(rat \<Rightarrow> rat) \<Rightarrow> string list \<Rightarrow> pydict list \<Rightarrow> exn + (string \<times> trend) list" where
  "vital_trends_of round2 [] patient_data = Inr []"
| "vital_trends_of round2 (vital # rest) patient_data =
     (let values = present_values vital patient_data in
      if length values \<ge> 5 then
        (case calculate_trend round2 values of
           Inl e \<Rightarrow> Inl e
         | Inr t \<Rightarrow> map_sum id (Cons (vital, t)) (vital_trends_of round2 rest patient_data))
      else vital_trends_of round2 rest patient_data)"

definition count_direction :: "string \<Rightarrow> (string \<times> trend) list \<Rightarrow> nat" where
  "count_direction d trends = length (filter (\<lambda>(vital, t). direction t = d) trends)"

definition trends_try :: "(rat \<Rightarrow> rat) \<Rightarrow> string \<Rightarrow> pydict list \<Rightarrow> exn + trend_analysis" where
  "trends_try round2 now patient_data =
     (if length patient_data < 10 then
        Inr \<lparr>status = Some ''insufficient_data'',
             trend_message = Some ''Need at least 10 data points for trend analysis'',
             overall_trajectory = None, vital_trends = None, summary_of_trends = None,
             analysis_period = None, last_updated = None\<rparr>
      else
        (case vital_trends_of round2
                [''heartRate'', ''temperature'', ''bloodPressureSystolic'', ''oxygenSaturation'']
                patient_data of
           Inl e \<Rightarrow> Inl e
         | Inr trends \<Rightarrow>
           (let improving_trends = count_direction ''improving'' trends;
                stable_trends = count_direction ''stable'' trends;
                declining_trends = count_direction ''declining'' trends
            in Inr \<lparr>status = None, trend_message = None,
                    overall_trajectory =
                      Some (if improving_trends > declining_trends then ''improving''
                            else if declining_trends > improving_trends then ''declining''
                            else ''stable''),
                    vital_trends = Some trends,
                    summary_of_trends =
                      Some \<lparr>improving = improving_trends, stable = stable_trends,
                            declining = declining_trends\<rparr>,
                    analysis_period = Some (length patient_data),
                    last_updated = Some now\<rparr>)))"

text \<open>\<open>analyze_health_trends\<close>; \<open>now\<close> is \<open>datetime.now().isoformat()\<close>.\<close>

definition analyze_health_trends :: "(rat \<Rightarrow> rat) \<Rightarrow> string \<Rightarrow> pydict list \<Rightarrow> trend_analysis" where
  "analyze_health_trends round2 now patient_data =
     (case trends_try round2 now patient_data of
        Inr r \<Rightarrow> r
      | Inl e \<Rightarrow>
          \<lparr>status = Some ''error'',
           trend_message = Some (''Trend analysis failed: '' @ str_exn e),
           overall_trajectory = None, vital_trends = None, summary_of_trends = None,
           analysis_period = None, last_updated = None\<rparr>)"

section \<open>Trend direction of a series (\<open>_analyze_trends\<close>)\<close>

text \<open>
  \<open>_analyze_trends\<close> takes, for each vital, the list of its recorded values, numbers
  by its signature. \<open>values[-len(values)//4:]\<close> negates the length before the floor
  division, so the last slice has the length divided by four rounded up, and the first
  one, \<open>values[:len(values)//4]\<close>, has it rounded down.
\<close>

definition first_quarter :: "rat list \<Rightarrow> rat list" where
  "first_quarter values =
     (if length values \<ge> 4 then take (length values div 4) values else take 1 values)"

definition last_quarter :: "rat list \<Rightarrow> rat list" where
  "last_quarter values =
     (if length values \<ge> 4 then slice_from ((- int (length values)) div 4) values
      else slice_from (- 1) values)"

definition average :: "rat list \<Rightarrow> rat" where
  "average xs = sum_list xs / of_nat (length xs)"

definition trend_of :: "rat list \<Rightarrow> string" where
  "trend_of values =
     (if length values \<ge> 5 then
        (let avg_first = average (first_quarter values);
             avg_last = average (last_quarter values)
         in if avg_last > avg_first * (105 / 100) then ''increasing''
            else if avg_last < avg_first * (95 / 100) then ''decreasing''
            else ''stable'')
      else ''insufficient_data'')"

definition analyze_trends :: "(string \<times> rat list) list \<Rightarrow> (string \<times> string) list" where
  "analyze_trends vitals = map (\<lambda>(vital, values). (vital, trend_of values)) vitals"

section \<open>Severity of a predicted emergency (\<open>EmergencyClassifier\<close>)\<close>

definition critical_emergencies :: "string list" where
  "critical_emergencies =
     [''cardiac_arrest'', ''stroke'', ''severe_hypotension'', ''respiratory_distress'']"

definition high_emergencies :: "string list" where
  "high_emergencies = [''severe_hypertension'', ''hyperthermia'', ''hypothermia'', ''seizure'']"

definition medium_emergencies :: "string list" where
  "medium_emergencies = [''fall_detected'', ''medication_reaction'']"

text \<open>\<open>_determine_severity\<close>\<close>

definition determine_severity :: "string \<Rightarrow> rat \<Rightarrow> string" where
  "determine_severity emergency_type confidence =
     (if emergency_type \<in> set critical_emergencies \<and> confidence > 7 / 10 then ''critical''
      else if emergency_type \<in> set critical_emergencies
              \<or> (emergency_type \<in> set high_emergencies \<and> confidence > 8 / 10) then ''high''
      else if emergency_type \<in> set high_emergencies
              \<or> (emergency_type \<in> set medium_emergencies \<and> confidence > 7 / 10) then ''medium''
      else if emergency_type \<noteq> ''normal'' then ''low''
      else ''normal'')"

text \<open>
  The dictionary \<open>predict_emergency\<close> builds once the model has given the predicted
  type and its confidence. The top predictions come from the model, and the actions from
  the table \<open>_get_emergency_actions\<close> reads.
\<close>

definition emergency_result_of ::
  "string \<Rightarrow> rat \<Rightarrow> top_prediction list \<Rightarrow> string list \<Rightarrow> emergency_result" where
  "emergency_result_of emergency_type confidence top_emergencies actions =
     \<lparr>em_predicted_emergency = Some emergency_type,
      em_confidence = Some confidence,
      em_severity = Some (determine_severity emergency_type confidence),
      em_top_predictions = Some top_emergencies,
      em_recommended_actions = Some actions\<rparr>"

section \<open>Builtins, for concrete runs\<close>

text \<open>
  \<open>str\<close> of a value, as an f-string prints it: an integer in decimal; a float, here a
  rational, by its decimal expansion with at least one digit after the point (Python
  prints the shortest decimal that reads back as the same float, which is that expansion
  for a value written with a few digits).
\<close>

fun frac_digits :: "nat \<Rightarrow> rat \<Rightarrow> string" where
  "frac_digits 0 r = []"
| "frac_digits (Suc k) r =
     (let d = \<lfloor>r * 10\<rfloor>; r' = r * 10 - of_int d
      in char_of (48 + nat d) # (if r' = 0 then [] else frac_digits k r'))"

definition str_float :: "rat \<Rightarrow> string" where
  "str_float r =
     (if r < 0 then ''-'' else []) @ str_nat (nat \<lfloor>\<bar>r\<bar>\<rfloor>) @ ''.''
     @ frac_digits 17 (\<bar>r\<bar> - of_int \<lfloor>\<bar>r\<bar>\<rfloor>)"

fun str_value :: "pyval \<Rightarrow> string" where
  "str_value (PInt i) = str_int i"
| "str_value (PFloat r) = str_float r"
| "str_value (PStr s) = s"
| "str_value (PBool b) = (if b then ''True'' else ''False'')"
| "str_value PNone = ''None''"

text \<open>Rounding to the nearest integer, a tie to the even one, as \<open>:.2f\<close> and
  \<open>round\<close> do.\<close>

definition round_half_even :: "rat \<Rightarrow> int" where
  "round_half_even r =
     (let f = \<lfloor>r\<rfloor>; d = r - of_int f
      in if d < 1 / 2 then f else if d > 1 / 2 then f + 1
         else if even f then f else f + 1)"

definition str_fixed2 :: "rat \<Rightarrow> string" where
  "str_fixed2 r =
     (let n = nat (round_half_even (\<bar>r\<bar> * 100))
      in (if r < 0 then ''-'' else []) @ str_nat (n div 100) @ ''.''
         @ [char_of (48 + n mod 100 div 10), char_of (48 + n mod 10)])"

definition round2 :: "rat \<Rightarrow> rat" where
  "round2 r = of_int (round_half_even (r * 100)) / 100"

definition python_builtins :: builtins where
  "python_builtins = \<lparr>fmt_value = str_value, fmt_2f = str_fixed2\<rparr>"

section \<open>The specification's reading of the operations\<close>

text \<open>
  Duplicates removed, the first occurrence of each string kept: every later copy of the
  head is dropped from the rest.
\<close>

fun keep_first_occurrences :: "string list \<Rightarrow> string list" where
  "keep_first_occurrences [] = []"
| "keep_first_occurrences (r # rs) = r # keep_first_occurrences (removeAll r rs)"

text \<open>
  The entries appended for a device by a run of stores, in the order they were stored,
  and the most recent \<open>n\<close> entries of a list.
\<close>

definition appended_for :: "string \<Rightarrow> (string \<times> string \<times> pydict) list \<Rightarrow> pydict list" where
  "appended_for dev ops =
     map (\<lambda>(now, d, health_data). AList.update ''timestamp'' (PStr now) health_data)
       (filter (\<lambda>(now, d, health_data). d = dev) ops)"

definition appended_recent_for :: "string \<Rightarrow> (string \<times> string \<times> pydict) list \<Rightarrow> pydict list" where
  "appended_recent_for patient_id ops =
     map (\<lambda>(now, d, health_data).
            (''timestamp'',
             (case map_of health_data ''timestamp'' of None \<Rightarrow> PStr now | Some v \<Rightarrow> v))
            # AList.delete ''timestamp'' health_data)
       (filter (\<lambda>(now, d, health_data). d = patient_id) ops)"

definition most_recent :: "nat \<Rightarrow> 'a list \<Rightarrow> 'a list" where
  "most_recent n xs = drop (length xs - n) xs"

text \<open>
  A reading whose vitals, where present, are numbers: the keys the risk forecast reads.
\<close>

definition numeric_vitals :: "pydict \<Rightarrow> bool" where
  "numeric_vitals d =
     list_all (\<lambda>key. case map_of d key of None \<Rightarrow> True | Some v \<Rightarrow> num_of v \<noteq> None)
       [''heartRate'', ''temperature'', ''bloodPressureSystolic'', ''oxygenSaturation'']"

section \<open>Concrete inputs\<close>

text \<open>
  The reading of the threshold scenario, the reading of the repository's own test
  (\<open>test_health_monitor\<close>), a reading whose heart rate is not a number, and some
  readings of the clock.
\<close>

definition scenario_reading :: pydict where
  "scenario_reading =
     [(''heart_rate'', PInt 155), (''temperature'', PFloat (392 / 10)), (''spo2'', PInt 89)]"

definition test_data :: pydict where
  "test_data =
     [(''heartRate'', PInt 85), (''temperature'', PFloat (372 / 10)),
      (''bloodPressureSystolic'', PInt 130), (''bloodPressureDiastolic'', PInt 85),
      (''oxygenSaturation'', PInt 96)]"

definition malformed_reading :: pydict where
  "malformed_reading = [(''heart_rate'', PStr ''fast''), (''spo2'', PInt 97)]"

definition sample_clock :: clock where
  "sample_clock =
     \<lparr>t_start = \<lparr>seconds = 0, isoformat = ''2025-01-01T12:00:00''\<rparr>,
      t_store = \<lparr>seconds = 1 / 1000, isoformat = ''2025-01-01T12:00:00.001000''\<rparr>,
      t_end = \<lparr>seconds = 2 / 1000, isoformat = ''2025-01-01T12:00:00.002000''\<rparr>,
      t_error = \<lparr>seconds = 3 / 1000, isoformat = ''2025-01-01T12:00:00.003000''\<rparr>\<rparr>"

definition low_heart_rate_alert :: alert where
  "low_heart_rate_alert =
     \<lparr>a_type = ''critical_low'', a_vital_sign = ''heart_rate'', a_current_value = PInt 35,
      a_threshold = PInt 40, a_severity = ''critical'',
      a_message = ''heart_rate critically low: 35''\<rparr>"

text \<open>The alerts the threshold scenario gives, in the order of the table.\<close>

definition scenario_alerts :: "alert list" where
  "scenario_alerts =
     [\<lparr>a_type = ''critical_high'', a_vital_sign = ''heart_rate'', a_current_value = PInt 155,
       a_threshold = PInt 150, a_severity = ''critical'',
       a_message = ''heart_rate critically high: 155''\<rparr>,
      \<lparr>a_type = ''critical_high'', a_vital_sign = ''temperature'',
       a_current_value = PFloat (392 / 10), a_threshold = PFloat 39,
       a_severity = ''critical'', a_message = ''temperature critically high: 39.2''\<rparr>,
      \<lparr>a_type = ''critical_low'', a_vital_sign = ''spo2'', a_current_value = PInt 89,
       a_threshold = PInt 90, a_severity = ''critical'',
       a_message = ''spo2 critically low: 89''\<rparr>]"

section \<open>Properties of the threshold check\<close>

lemma check_alerts_sound:
  "check_immediate_alerts fmt tbl reading = Inr alerts \<Longrightarrow> a \<in> set alerts \<Longrightarrow>
   a_severity a = ''critical'' \<and> a_vital_sign a \<in> fst ` set tbl
   \<and> map_of reading (a_vital_sign a) \<noteq> None"
proof (induction tbl arbitrary: alerts)
  case Nil
  then show ?case by simp
next
  case (Cons p tbl)
  obtain vital th where p: "p = (vital, th)" by (cases p)
  from Cons.prems Cons.IH show ?case unfolding p
    by (auto split: option.splits sum.splits bool.splits simp: map_sum_def)
qed

lemma check_alerts_absent:
  "check_immediate_alerts fmt tbl reading = Inr alerts \<Longrightarrow> vital \<notin> fst ` set tbl \<Longrightarrow>
   filter (\<lambda>a. a_vital_sign a = vital) alerts = []"
  using check_alerts_sound[of fmt tbl reading alerts]
  by (auto simp: filter_empty_conv)

lemma check_alerts_exact:
  assumes "distinct (map fst tbl)"
    and "check_immediate_alerts fmt tbl reading = Inr alerts"
    and "(vital, th) \<in> set tbl"
    and "map_of reading vital = Some v"
    and "num_of v = Some x" and "num_of (t_min th) = Some lo" and "num_of (t_max th) = Some hi"
  shows "filter (\<lambda>a. a_vital_sign a = vital) alerts =
           (if x < lo then
              [\<lparr>a_type = ''critical_low'', a_vital_sign = vital, a_current_value = v,
                a_threshold = t_min th, a_severity = ''critical'',
                a_message = vital @ '' critically low: '' @ fmt v\<rparr>]
            else if hi < x then
              [\<lparr>a_type = ''critical_high'', a_vital_sign = vital, a_current_value = v,
                a_threshold = t_max th, a_severity = ''critical'',
                a_message = vital @ '' critically high: '' @ fmt v\<rparr>]
            else [])"
  using assms
proof (induction tbl arbitrary: alerts)
  case Nil
  then show ?case by simp
next
  case (Cons p tbl)
  obtain vital' th' where p: "p = (vital', th')" by (cases p)
  show ?case
  proof (cases "vital' = vital")
    case True
    with Cons.prems p have th: "th' = th" and notin: "vital \<notin> fst ` set tbl"
      by (auto simp: image_iff) 
    have lt: "py_lt v (t_min th) = Inr (x < lo)" and gt: "py_gt v (t_max th) = Inr (hi < x)"
      using Cons.prems by (simp_all add: py_lt_def py_gt_def)
    from Cons.prems(2) show ?thesis unfolding p True th
      using notin Cons.prems(4) lt gt
      by (auto split: sum.splits bool.splits if_splits simp: map_sum_def dest: check_alerts_absent)
  next
    case False
    with Cons.prems p have mem: "(vital, th) \<in> set tbl" and d: "distinct (map fst tbl)" by auto
    from Cons.prems(2) show ?thesis unfolding p
      using False Cons.IH[OF d _ mem Cons.prems(4-7)]
      by (auto split: option.splits sum.splits bool.splits simp: map_sum_def)
  qed
qed

lemma check_returns_on_numbers:
  assumes "list_all (\<lambda>(vital, th). num_of (t_min th) \<noteq> None \<and> num_of (t_max th) \<noteq> None
                       \<and> (case map_of reading vital of None \<Rightarrow> True
                           | Some v \<Rightarrow> num_of v \<noteq> None)) tbl"
  shows "\<exists>alerts. check_immediate_alerts fmt tbl reading = Inr alerts"
  using assms
proof (induction tbl)
  case Nil
  then show ?case by simp
next
  case (Cons p tbl)
  obtain vital th where p: "p = (vital, th)" by (cases p)
  from Cons obtain rest where rest: "check_immediate_alerts fmt tbl reading = Inr rest"
    by auto
  from Cons.prems show ?case unfolding p
    by (auto simp: rest py_lt_def py_gt_def split: option.splits bool.splits)
qed

lemma check_first_alert_critical:
  assumes "check_immediate_alerts fmt tbl reading = Inr (a # rest)"
  shows "List.find (\<lambda>a. a_severity a = ''critical'') (a # rest) = Some a"
  using check_alerts_sound[OF assms, of a] by simp

lemma scenario_check:
  "check_immediate_alerts str_value critical_thresholds scenario_reading = Inr scenario_alerts"
  by code_simp

text \<open>
  C9, amended. A threshold check that returns gives only alerts of severity critical, and
  for a vital that is in the table and in the reading with a number as its value, exactly
  one alert when the value is strictly below the minimum (\<open>critical_low\<close>) or strictly
  above the maximum (\<open>critical_high\<close>), and none otherwise; the check does return when
  the values it reads are numbers (\<open>check_returns_on_numbers\<close>). The reading
  \<open>{heart_rate: 155, temperature: 39.2, spo2: 89}\<close> against the critical thresholds
  gives exactly three alerts, heart rate and temperature above the maximum and oxygen
  saturation below the minimum, and the verdict fused from them has level emergency.
\<close>

theorem threshold_alerts:
  assumes "distinct (map fst tbl)"
    and "check_immediate_alerts fmt tbl reading = Inr alerts"
    and "(vital, th) \<in> set tbl"
    and "map_of reading vital = Some v"
    and "num_of v = Some x" and "num_of (t_min th) = Some lo" and "num_of (t_max th) = Some hi"
  shows "filter (\<lambda>a. a_vital_sign a = vital) alerts =
           (if x < lo then
              [\<lparr>a_type = ''critical_low'', a_vital_sign = vital, a_current_value = v,
                a_threshold = t_min th, a_severity = ''critical'',
                a_message = vital @ '' critically low: '' @ fmt v\<rparr>]
            else if hi < x then
              [\<lparr>a_type = ''critical_high'', a_vital_sign = vital, a_current_value = v,
                a_threshold = t_max th, a_severity = ''critical'',
                a_message = vital @ '' critically high: '' @ fmt v\<rparr>]
            else [])
       \<and> length (filter (\<lambda>a. a_vital_sign a = vital) alerts)
           = (if x < lo \<or> hi < x then 1 else 0)
       \<and> list_all (\<lambda>a. a_severity a = ''critical'') alerts
       \<and> check_immediate_alerts str_value critical_thresholds scenario_reading
           = Inr scenario_alerts
       \<and> length scenario_alerts = 3
       \<and> map a_type scenario_alerts = [''critical_high'', ''critical_high'', ''critical_low'']
       \<and> os_level (determine_overall_status fmt2 scenario_alerts anomaly_result
                     emergency_result risk_result) = ''emergency''"
proof -
  note exact = check_alerts_exact[OF assms]
  have crit: "list_all (\<lambda>a. a_severity a = ''critical'') alerts"
    using check_alerts_sound[OF assms(2)] by (simp add: list_all_iff)
  have level: "os_level (determine_overall_status fmt2 scenario_alerts anomaly_result
                     emergency_result risk_result) = ''emergency''"
    by (simp add: determine_overall_status_def Let_def scenario_alerts_def)
  show ?thesis
    using exact crit level scenario_check by (simp add: scenario_alerts_def)
qed

theorem threshold_alerts_witness:
  "distinct (map fst critical_thresholds)
   \<and> check_immediate_alerts str_value critical_thresholds scenario_reading
       = Inr scenario_alerts
   \<and> (''spo2'', \<lparr>t_min = PInt 90, t_max = PInt 100\<rparr>) \<in> set critical_thresholds
   \<and> map_of scenario_reading ''spo2'' = Some (PInt 89)
   \<and> num_of (PInt 89) = Some 89
   \<and> length (filter (\<lambda>a. a_vital_sign a = ''spo2'') scenario_alerts) = 1
   \<and> length scenario_alerts = 3"
proof -
  have d: "distinct (map fst critical_thresholds)"
    and t: "(''spo2'', \<lparr>t_min = PInt 90, t_max = PInt 100\<rparr>) \<in> set critical_thresholds"
    by (simp_all add: critical_thresholds_def)
  have r: "map_of scenario_reading ''spo2'' = Some (PInt 89)"
    by (simp add: scenario_reading_def)
  show ?thesis
    using d t r scenario_check
      threshold_alerts[OF d scenario_check t r, of 89 90 100]
    by simp
qed

text \<open>
  The scenario as the specification counts it, exactly two alerts, does not hold: the
  check gives three.
\<close>

theorem scenario_two_alerts_counterexample:
  "map_sum id (map a_vital_sign)
     (check_immediate_alerts str_value critical_thresholds scenario_reading)
     = Inr [''heart_rate'', ''temperature'', ''spo2'']
   \<and> map_sum id length (check_immediate_alerts str_value critical_thresholds scenario_reading)
     \<noteq> Inr 2"
  by code_simp

section \<open>Properties of the fusion\<close>

lemma find_Some_filter:
  "List.find P xs = Some c \<Longrightarrow> filter P xs \<noteq> [] \<and> hd (filter P xs) = c \<and> xs \<noteq> []"
  by (induction xs) (auto split: if_splits)

lemma find_None_filter: "List.find P xs = None \<Longrightarrow> filter P xs = []"
  by (induction xs) (auto split: if_splits)

text \<open>
  C1. Whenever the alerts of the threshold check hold an alert of severity critical, the
  verdict has level emergency, severity critical, confidence 0.95, and the message of the
  first such alert as its primary concern, whatever the anomaly, classification and risk
  signals are: rule 1 returns before the other rules are read. Every alert of the
  threshold check is critical, so its first alert is that alert
  (\<open>check_first_alert_critical\<close>).
\<close>

theorem critical_alert_short_circuits:
  assumes "List.find (\<lambda>a. a_severity a = ''critical'') alerts = Some c"
  shows "os_level (determine_overall_status fmt2 alerts anomaly_result emergency_result
                     risk_result) = ''emergency''
       \<and> os_severity (determine_overall_status fmt2 alerts anomaly_result emergency_result
                         risk_result) = ''critical''
       \<and> os_confidence (determine_overall_status fmt2 alerts anomaly_result emergency_result
                           risk_result) = 95 / 100
       \<and> os_primary_concern (determine_overall_status fmt2 alerts anomaly_result
                                emergency_result risk_result) = Some (a_message c)"
  using find_Some_filter[OF assms]
  by (simp add: determine_overall_status_def Let_def)

theorem critical_alert_short_circuits_witness:
  "List.find (\<lambda>a. a_severity a = ''critical'') [low_heart_rate_alert]
     = Some low_heart_rate_alert
   \<and> os_level (determine_overall_status str_fixed2 [low_heart_rate_alert] None
                 (Some (emergency_result_of ''fall_detected'' (9 / 10) [] [])) None)
     = ''emergency''
   \<and> os_primary_concern (determine_overall_status str_fixed2 [low_heart_rate_alert] None
                 (Some (emergency_result_of ''fall_detected'' (9 / 10) [] [])) None)
     = Some ''heart_rate critically low: 35''"
proof -
  have h: "List.find (\<lambda>a. a_severity a = ''critical'') [low_heart_rate_alert]
             = Some low_heart_rate_alert"
    by (simp add: low_heart_rate_alert_def)
  show ?thesis
    using h critical_alert_short_circuits[OF h, of str_fixed2 None
            "Some (emergency_result_of ''fall_detected'' (9 / 10) [] [])" None]
    by (simp add: low_heart_rate_alert_def)
qed

lemma determine_severity_labels:
  "emergency_type \<noteq> ''normal'' \<Longrightarrow>
   determine_severity emergency_type confidence \<in> set [''critical'', ''high'', ''medium'', ''low'']"
  by (simp add: determine_severity_def)

text \<open>
  C4. With no critical threshold alert, a classification signal whose predicted category
  is not \<open>normal\<close> and whose confidence is above 0.7 decides the verdict: the level is
  emergency when the severity of the category is critical and warning otherwise, the
  severity is that severity, the confidence is the confidence of the signal, and the
  primary concern names the category. The severity of a category is one of the four labels
  \<open>_determine_severity\<close> gives to a category other than \<open>normal\<close>
  (\<open>determine_severity_labels\<close>). In particular the signal the classifier builds for
  \<open>cardiac_arrest\<close> at confidence 0.9 gives level emergency, severity critical and the
  primary concern \<open>Potential cardiac arrest detected\<close>.
\<close>

theorem classification_rule:
  assumes "List.find (\<lambda>a. a_severity a = ''critical'') alerts = None"
    and "em_predicted_emergency r = Some category" and "category \<noteq> ''normal''"
    and "em_confidence r = Some conf" and "conf > 7 / 10"
    and "em_severity r = Some sev"
    and "sev \<in> set [''critical'', ''high'', ''medium'', ''low'']"
  shows "(let v = determine_overall_status fmt2 alerts anomaly_result (Some r) risk_result in
            os_level v = (if sev = ''critical'' then ''emergency'' else ''warning'')
          \<and> os_severity v = sev
          \<and> os_confidence v = conf
          \<and> os_primary_concern v
              = Some (''Potential '' @ replace_underscores category @ '' detected''))
       \<and> (let v = determine_overall_status fmt2 alerts anomaly_result
                     (Some (emergency_result_of ''cardiac_arrest'' (9 / 10) tops actions))
                     risk_result in
            os_level v = ''emergency'' \<and> os_severity v = ''critical''
          \<and> os_confidence v = 9 / 10
          \<and> os_primary_concern v = Some ''Potential cardiac arrest detected'')"
proof -
  note none = find_None_filter[OF assms(1)]
  have general:
    "(let v = determine_overall_status fmt2 alerts anomaly_result (Some r) risk_result in
            os_level v = (if sev = ''critical'' then ''emergency'' else ''warning'')
          \<and> os_severity v = sev
          \<and> os_confidence v = conf
          \<and> os_primary_concern v
              = Some (''Potential '' @ replace_underscores category @ '' detected''))"
    using none assms(2-)
    by (auto simp add: determine_overall_status_def Let_def get_or_def severity_map_get_def)
  have scenario:
    "(let v = determine_overall_status fmt2 alerts anomaly_result
                     (Some (emergency_result_of ''cardiac_arrest'' (9 / 10) tops actions))
                     risk_result in
            os_level v = ''emergency'' \<and> os_severity v = ''critical''
          \<and> os_confidence v = 9 / 10
          \<and> os_primary_concern v = Some ''Potential cardiac arrest detected'')"
    using none
    by (simp add: determine_overall_status_def Let_def get_or_def severity_map_get_def
          emergency_result_of_def determine_severity_def critical_emergencies_def
          replace_underscores_def)
  from general scenario show ?thesis by (rule conjI)
qed

theorem classification_rule_witness:
  "List.find (\<lambda>a. a_severity a = ''critical'') [] = None
   \<and> em_predicted_emergency (emergency_result_of ''hyperthermia'' (3 / 4) [] [])
       = Some ''hyperthermia''
   \<and> ''hyperthermia'' \<noteq> ''normal''
   \<and> em_confidence (emergency_result_of ''hyperthermia'' (3 / 4) [] []) = Some (3 / 4)
   \<and> (3 / 4 :: rat) > 7 / 10
   \<and> em_severity (emergency_result_of ''hyperthermia'' (3 / 4) [] []) = Some ''medium''
   \<and> os_level (determine_overall_status str_fixed2 [] None
                 (Some (emergency_result_of ''hyperthermia'' (3 / 4) [] [])) None) = ''warning''
   \<and> os_severity (determine_overall_status str_fixed2 [] None
                 (Some (emergency_result_of ''hyperthermia'' (3 / 4) [] [])) None) = ''medium''
   \<and> os_primary_concern (determine_overall_status str_fixed2 [] None
                 (Some (emergency_result_of ''hyperthermia'' (3 / 4) [] [])) None)
       = Some ''Potential hyperthermia detected''"
proof -
  have h: "em_predicted_emergency (emergency_result_of ''hyperthermia'' (3 / 4) [] [])
             = Some ''hyperthermia''"
      "em_confidence (emergency_result_of ''hyperthermia'' (3 / 4) [] []) = Some (3 / 4)"
      "em_severity (emergency_result_of ''hyperthermia'' (3 / 4) [] []) = Some ''medium''"
    by (simp_all add: emergency_result_of_def determine_severity_def critical_emergencies_def
          high_emergencies_def)
  show ?thesis
    using h classification_rule[of "[]" "emergency_result_of ''hyperthermia'' (3 / 4) [] []"
            "''hyperthermia''" "3 / 4" "''medium''" str_fixed2 None None]
    by (simp add: Let_def replace_underscores_def)
qed

section \<open>Properties of the recommendations and of the response flag\<close>

lemma unique_recommendations_acc:
  "unique_recommendations acc rs
     = acc @ keep_first_occurrences (filter (\<lambda>r. r \<notin> set acc) rs)"
proof (induction rs arbitrary: acc)
  case Nil
  then show ?case by simp
next
  case (Cons r rs)
  show ?case
  proof (cases "r \<in> set acc")
    case True
    with Cons show ?thesis by simp
  next
    case False
    have "filter (\<lambda>x. x \<notin> set (acc @ [r])) rs = removeAll r (filter (\<lambda>x. x \<notin> set acc) rs)"
      by (induction rs) auto
    with False Cons show ?thesis by simp
  qed
qed

lemma keep_first_set: "set (keep_first_occurrences xs) = set xs"
  by (induction xs rule: keep_first_occurrences.induct) auto

lemma keep_first_distinct: "distinct (keep_first_occurrences xs)"
  by (induction xs rule: keep_first_occurrences.induct) (auto simp: keep_first_set)

text \<open>
  C5. The recommendations of a fusion call are the fixed immediate-attention line, there
  exactly when an alert fired, followed by the recommendation lists of the anomaly, the
  classification and the risk signal in this order (an absent signal or list gives
  nothing), with every duplicate after the first occurrence removed, cut to the first ten
  entries. So the list has at most ten entries and no string twice.
\<close>

theorem recommendations_merged:
  "recommendations (combine_analysis_results fmt2 health_data alerts anomaly_result
                      emergency_result risk_result) =
     take 10 (keep_first_occurrences
       ((if alerts = [] then [] else [''IMMEDIATE MEDICAL ATTENTION REQUIRED''])
        @ get_or (Option.bind anomaly_result an_recommendations) []
        @ get_or (Option.bind emergency_result em_recommended_actions) []
        @ get_or (Option.bind risk_result rk_recommendations) []))
   \<and> length (recommendations (combine_analysis_results fmt2 health_data alerts anomaly_result
                emergency_result risk_result)) \<le> 10
   \<and> distinct (recommendations (combine_analysis_results fmt2 health_data alerts
                  anomaly_result emergency_result risk_result))"
proof -
  have all: "all_recommendations alerts anomaly_result emergency_result risk_result =
       (if alerts = [] then [] else [''IMMEDIATE MEDICAL ATTENTION REQUIRED''])
        @ get_or (Option.bind anomaly_result an_recommendations) []
        @ get_or (Option.bind emergency_result em_recommended_actions) []
        @ get_or (Option.bind risk_result rk_recommendations) []"
    by (simp add: all_recommendations_def get_or_def split: option.splits)
  have recs: "recommendations (combine_analysis_results fmt2 health_data alerts anomaly_result
                emergency_result risk_result)
              = take 10 (keep_first_occurrences
                  (all_recommendations alerts anomaly_result emergency_result risk_result))"
    by (simp add: combine_analysis_results_def Let_def unique_recommendations_acc)
  show ?thesis
    unfolding recs all[symmetric]
    by (simp add: keep_first_distinct)
qed

lemma combine_flag:
  "requires_emergency_response
     (combine_analysis_results fmt2 health_data alerts anomaly_result emergency_result risk_result)
   = (os_severity (overall_status (combine_analysis_results fmt2 health_data alerts
                     anomaly_result emergency_result risk_result)) = ''critical''
      \<or> os_severity (overall_status (combine_analysis_results fmt2 health_data alerts
                        anomaly_result emergency_result risk_result)) = ''high'')"
  by (simp add: combine_analysis_results_def Let_def)

lemma analyze_try_result:
  assumes "analyze_try b clk m dev health_data = (m1, Inr r)"
  shows "\<exists>alerts an em rk.
           r = (combine_analysis_results (fmt_2f b) health_data alerts an em rk)
                 \<lparr>device_id := Some dev,
                  analysis_timestamp := Some (isoformat (t_start clk)),
                  processing_time_ms :=
                    Some ((seconds (t_end clk) - seconds (t_start clk)) * 1000),
                  ai_models_enabled := Some (enable_ai_models m1)\<rparr>"
  using assms by (auto simp: analyze_try_def Let_def split: sum.splits)

text \<open>
  C10. The flag \<open>requires_emergency_response\<close> of a combined analysis, and of whatever
  \<open>analyze_health_data\<close> returns, is true exactly when the severity of the verdict is
  \<open>critical\<close> or \<open>high\<close>; the error response has the flag false and no immediate
  alerts.
\<close>

theorem emergency_response_flag:
  "requires_emergency_response
     (combine_analysis_results fmt2 health_data alerts anomaly_result emergency_result risk_result)
   = (os_severity (overall_status (combine_analysis_results fmt2 health_data alerts
                     anomaly_result emergency_result risk_result)) = ''critical''
      \<or> os_severity (overall_status (combine_analysis_results fmt2 health_data alerts
                        anomaly_result emergency_result risk_result)) = ''high'')
   \<and> requires_emergency_response (fst (analyze_health_data b clk m dev health_data))
     = (os_severity (overall_status (fst (analyze_health_data b clk m dev health_data)))
          = ''critical''
        \<or> os_severity (overall_status (fst (analyze_health_data b clk m dev health_data)))
          = ''high'')
   \<and> requires_emergency_response (create_error_response enable now dev msg) = False
   \<and> immediate_alerts (create_error_response enable now dev msg) = []"
proof -
  have a: "requires_emergency_response (fst (analyze_health_data b clk m dev health_data))
     = (os_severity (overall_status (fst (analyze_health_data b clk m dev health_data)))
          = ''critical''
        \<or> os_severity (overall_status (fst (analyze_health_data b clk m dev health_data)))
          = ''high'')"
  proof (cases "snd (analyze_try b clk m dev health_data)")
    case (Inl e)
    then show ?thesis
      by (cases "analyze_try b clk m dev health_data")
         (simp add: analyze_health_data_def create_error_response_def)
  next
    case (Inr r)
    then obtain m1 where t: "analyze_try b clk m dev health_data = (m1, Inr r)"
      by (cases "analyze_try b clk m dev health_data") simp
    from analyze_try_result[OF t] show ?thesis
      using t combine_flag by (auto simp: analyze_health_data_def)
  qed
  show ?thesis using combine_flag a by (simp add: create_error_response_def)
qed

section \<open>Failure of the analysis\<close>

lemma malformed_reading_raises:
  "analyze_try python_builtins sample_clock (new_monitor False None None None) ''device-1''
     malformed_reading
   = (store_health_data ''2025-01-01T12:00:00.001000'' (new_monitor False None None None)
        ''device-1'' malformed_reading,
      Inl (not_supported ''<'' (PStr ''fast'') (PInt 40)))"
  by (simp add: analyze_try_def Let_def sample_clock_def new_monitor_def python_builtins_def
      critical_thresholds_def malformed_reading_def py_lt_def store_health_data_def)

text \<open>
  C2. When a step of the body of \<open>analyze_health_data\<close> raises, the stored reading, the
  threshold check or a scorer, the call returns the error response and the exception goes
  no further: the verdict has level \<open>error\<close>, confidence 0 and primary concern
  \<open>Analysis failed\<close>, its summary and the \<open>error\<close> field carry the text of the
  exception, and the response has a timestamp. The function returns an analysis on every
  input; an exception exists only inside the body, as the value \<open>Inl e\<close>.
\<close>

theorem analysis_failure_is_caught:
  assumes "analyze_try b clk m dev health_data = (m1, Inl e)"
  shows "(let a = fst (analyze_health_data b clk m dev health_data) in
            a = create_error_response (enable_ai_models m1) (isoformat (t_error clk)) dev
                  (str_exn e)
          \<and> os_level (overall_status a) = ''error''
          \<and> os_confidence (overall_status a) = 0
          \<and> os_primary_concern (overall_status a) = Some ''Analysis failed''
          \<and> os_summary (overall_status a) = ''Health analysis error: '' @ str_exn e
          \<and> error a = Some (str_exn e)
          \<and> analysis_timestamp a = Some (isoformat (t_error clk)))"
  using assms by (simp add: analyze_health_data_def create_error_response_def)

theorem analysis_failure_is_caught_witness:
  "analyze_try python_builtins sample_clock (new_monitor False None None None) ''device-1''
     malformed_reading
   = (store_health_data ''2025-01-01T12:00:00.001000'' (new_monitor False None None None)
        ''device-1'' malformed_reading,
      Inl (not_supported ''<'' (PStr ''fast'') (PInt 40)))
   \<and> os_level (overall_status (fst (analyze_health_data python_builtins sample_clock
         (new_monitor False None None None) ''device-1'' malformed_reading))) = ''error''
   \<and> os_primary_concern (overall_status (fst (analyze_health_data python_builtins sample_clock
         (new_monitor False None None None) ''device-1'' malformed_reading)))
       = Some ''Analysis failed''
   \<and> analysis_timestamp (fst (analyze_health_data python_builtins sample_clock
         (new_monitor False None None None) ''device-1'' malformed_reading))
       = Some ''2025-01-01T12:00:00.003000''"
proof -
  have ts: "isoformat (t_error sample_clock) = ''2025-01-01T12:00:00.003000''"
    by (simp add: sample_clock_def)
  show ?thesis
    using malformed_reading_raises analysis_failure_is_caught[OF malformed_reading_raises]
    by (simp add: Let_def ts create_error_response_def)
qed

section \<open>Properties of the history store\<close>

lemma most_recent_step:
  "0 < n \<Longrightarrow> most_recent n (most_recent n xs @ [y]) = most_recent n (xs @ [y])"
proof (cases "length xs \<le> n")
  case True
  then show ?thesis by (simp add: most_recent_def)
next
  case False
  assume "0 < n"
  with False have "Suc (length xs) - (length xs - n + n) + (length xs - n) = Suc (length xs) - n"
    by arith
  with False show ?thesis by (simp add: most_recent_def)
qed

lemma slice_from_neg: "0 < n \<Longrightarrow> slice_from (- int n) xs = most_recent n xs"
  by (auto simp: slice_from_def most_recent_def nat_diff_distrib' max_def)

lemma capped_append:
  "(if length (xs @ [y]) > 100 then slice_from (- 100) (xs @ [y]) else xs @ [y])
   = most_recent 100 (xs @ [y])"
  using slice_from_neg[of 100 "xs @ [y]"] by (auto simp: most_recent_def)

lemma store_health_data_history:
  "health_history (store_health_data now m dev health_data) d =
     (if d = dev
      then Some (most_recent 100
             ((case health_history m dev of None \<Rightarrow> [] | Some xs \<Rightarrow> xs)
              @ [AList.update ''timestamp'' (PStr now) health_data]))
      else health_history m d)"
  unfolding store_health_data_def Let_def capped_append by simp

lemma most_recent_append:
  "0 < n \<Longrightarrow> most_recent n (most_recent n xs @ zs) = most_recent n (xs @ zs)"
proof (induction zs rule: rev_induct)
  case Nil
  then show ?case by (simp add: most_recent_def)
next
  case (snoc z zs)
  have "most_recent n (most_recent n xs @ zs @ [z])
        = most_recent n (most_recent n (most_recent n xs @ zs) @ [z])"
    using snoc.prems most_recent_step[of n "most_recent n xs @ zs" z] by simp
  also have "\<dots> = most_recent n (most_recent n (xs @ zs) @ [z])"
    using snoc by simp
  also have "\<dots> = most_recent n (xs @ zs @ [z])"
    using snoc.prems most_recent_step[of n "xs @ zs" z] by simp
  finally show ?case .
qed

lemma store_all_history:
  "health_history (store_all m ops) dev =
     (if appended_for dev ops = [] then health_history m dev
      else Some (most_recent 100
             ((case health_history m dev of None \<Rightarrow> [] | Some xs \<Rightarrow> xs) @ appended_for dev ops)))"
proof (induction ops arbitrary: m)
  case Nil
  then show ?case by (simp add: appended_for_def)
next
  case (Cons op ops)
  obtain now d health_data where op: "op = (now, d, health_data)" by (cases op)
  show ?case
  proof (cases "d = dev")
    case False
    then show ?thesis unfolding op
      by (simp add: Cons.IH store_health_data_history appended_for_def)
  next
    case True
    have app: "appended_for dev (op # ops)
               = AList.update ''timestamp'' (PStr now) health_data # appended_for dev ops"
      unfolding op using True by (simp add: appended_for_def)
    show ?thesis unfolding op using True app
      by (simp add: Cons.IH store_health_data_history op most_recent_append)
  qed
qed

lemma store_recent_history:
  "store_recent now h patient_id health_data d =
     (if d = patient_id
      then Some (most_recent 100
             ((case h patient_id of None \<Rightarrow> [] | Some xs \<Rightarrow> xs)
              @ [(''timestamp'',
                  (case map_of health_data ''timestamp'' of None \<Rightarrow> PStr now | Some v \<Rightarrow> v))
                 # AList.delete ''timestamp'' health_data]))
      else h d)"
  unfolding store_recent_def Let_def capped_append by simp

lemma store_recent_all_history:
  "store_recent_all h ops patient_id =
     (if appended_recent_for patient_id ops = [] then h patient_id
      else Some (most_recent 100
             ((case h patient_id of None \<Rightarrow> [] | Some xs \<Rightarrow> xs)
              @ appended_recent_for patient_id ops)))"
proof (induction ops arbitrary: h)
  case Nil
  then show ?case by (simp add: appended_recent_for_def)
next
  case (Cons op ops)
  obtain now d health_data where op: "op = (now, d, health_data)" by (cases op)
  show ?case
  proof (cases "d = patient_id")
    case False
    then show ?thesis unfolding op
      by (simp add: Cons.IH store_recent_history appended_recent_for_def)
  next
    case True
    have app: "appended_recent_for patient_id (op # ops)
               = ((''timestamp'',
                   (case map_of health_data ''timestamp'' of None \<Rightarrow> PStr now | Some v \<Rightarrow> v))
                  # AList.delete ''timestamp'' health_data) # appended_recent_for patient_id ops"
      unfolding op using True by (simp add: appended_recent_for_def)
    show ?thesis unfolding op using True app
      by (simp add: Cons.IH store_recent_history op most_recent_append)
  qed
qed

lemma length_most_recent: "length (most_recent n xs) \<le> n"
  by (simp add: most_recent_def)

text \<open>
  C3. After any run of stores into a new monitor, whatever the devices and the readings,
  the history of a device holds the most recent 100 of the entries appended for it, in
  the order they were appended (all of them while there are at most 100, and no list
  for a device nothing was stored for), so it never holds more than 100 entries and the
  entries it lost are the oldest ones. The store of the service, \<open>recent_health_data\<close>,
  behaves the same way.
\<close>

theorem history_keeps_last_100:
  "health_history (store_all (new_monitor enable d c p) ops) dev =
     (if appended_for dev ops = [] then None
      else Some (most_recent 100 (appended_for dev ops)))
   \<and> (case health_history (store_all (new_monitor enable d c p) ops) dev of
        None \<Rightarrow> True | Some entries \<Rightarrow> length entries \<le> 100)
   \<and> store_recent_all Map.empty ops dev =
     (if appended_recent_for dev ops = [] then None
      else Some (most_recent 100 (appended_recent_for dev ops)))
   \<and> (case store_recent_all Map.empty ops dev of
        None \<Rightarrow> True | Some entries \<Rightarrow> length entries \<le> 100)"
  by (simp add: store_all_history store_recent_all_history new_monitor_def length_most_recent)

section \<open>Properties of the risk windows\<close>

lemma window_keys:
  "str_int 1 = ''1''" "str_int 6 = ''6''" "str_int 12 = ''12''" "str_int 24 = ''24''"
  by code_simp+

lemma time_predictions_default:
  "calculate_time_predictions prediction_windows base =
     map (\<lambda>w. (str_int w @ ''h'',
               \<lparr>wp_risk_score = windowed_risk base w,
                wp_risk_level = determine_risk_level (windowed_risk base w),
                wp_probability = windowed_risk base w * 100\<rparr>)) [1, 6, 12, 24]"
  by (simp add: calculate_time_predictions_def prediction_windows_def window_keys)

lemma windowed_risk_mono:
  assumes "0 \<le> base" and "w1 \<le> w2"
  shows "windowed_risk base w1 \<le> windowed_risk base w2"
proof -
  have "(1 + (of_int w1 / 24) * (1 / 10) :: rat) \<le> 1 + (of_int w2 / 24) * (1 / 10)"
    using assms(2) by (simp add: divide_right_mono)
  then have "base * (1 + (of_int w1 / 24) * (1 / 10)) \<le> base * (1 + (of_int w2 / 24) * (1 / 10))"
    using assms(1) by (rule mult_left_mono)
  then show ?thesis
    unfolding windowed_risk_def Let_def by (rule min.mono[OF order_refl])
qed

text \<open>
  C6. For a base risk score between 0 and 1, the predictions are for the horizons
  \<open>1h\<close>, \<open>6h\<close>, \<open>12h\<close> and \<open>24h\<close>, in this order; the score of a horizon of
  \<open>h\<close> hours is the base score times \<open>1 + (h / 24) * 0.1\<close>, cut at 0.95; the four
  scores never decrease from one horizon to the next; and the level of each horizon
  follows the bands: critical from 0.8, high from 0.6, medium from 0.4, low from 0.2,
  minimal below.
\<close>

theorem risk_windows:
  assumes "0 \<le> base" and "base \<le> 1"
  shows "map fst (calculate_time_predictions prediction_windows base) = [''1h'', ''6h'', ''12h'', ''24h'']
       \<and> map (\<lambda>(k, p). wp_risk_score p) (calculate_time_predictions prediction_windows base)
           = map (\<lambda>h. min (95 / 100) (base * (1 + (of_int h / 24) * (1 / 10)))) [1, 6, 12, 24]
       \<and> sorted (map (\<lambda>(k, p). wp_risk_score p) (calculate_time_predictions prediction_windows base))
       \<and> list_all (\<lambda>(k, p). wp_risk_level p =
                      (if wp_risk_score p \<ge> 8 / 10 then ''critical''
                       else if wp_risk_score p \<ge> 6 / 10 then ''high''
                       else if wp_risk_score p \<ge> 4 / 10 then ''medium''
                       else if wp_risk_score p \<ge> 2 / 10 then ''low''
                       else ''minimal''))
           (calculate_time_predictions prediction_windows base)"
proof -
  have keys: "map fst (calculate_time_predictions prediction_windows base) = [''1h'', ''6h'', ''12h'', ''24h'']"
    by (simp add: time_predictions_default window_keys)
  have scores: "map (\<lambda>(k, p). wp_risk_score p) (calculate_time_predictions prediction_windows base)
           = map (windowed_risk base) [1, 6, 12, 24]"
    by (simp add: time_predictions_default)
  have mono: "sorted (map (windowed_risk base) [1, 6, 12, 24])"
    using assms(1) by (simp add: windowed_risk_mono)
  have bands: "list_all (\<lambda>(k, p). wp_risk_level p = determine_risk_level (wp_risk_score p))
           (calculate_time_predictions prediction_windows base)"
    by (simp add: time_predictions_default)
  show ?thesis
    using keys mono bands unfolding scores
    by (simp add: windowed_risk_def determine_risk_level_def Let_def)
qed


theorem risk_windows_witness:
  "(0::rat) \<le> 1 / 2 \<and> (1 / 2 :: rat) \<le> 1
   \<and> map fst (calculate_time_predictions prediction_windows (1 / 2)) = [''1h'', ''6h'', ''12h'', ''24h'']
   \<and> sorted (map (\<lambda>(k, p). wp_risk_score p) (calculate_time_predictions prediction_windows (1 / 2)))"
  using risk_windows[of "1 / 2"] by simp

section \<open>Properties of the forecast and of the trends\<close>

lemma any_gt_numeric:
  "list_all (\<lambda>v. num_of v \<noteq> None) vs \<Longrightarrow> num_of bound \<noteq> None
   \<Longrightarrow> \<exists>b. any_gt vs bound = Inr b"
  by (induction vs) (auto simp: py_gt_def split: bool.splits)

lemma any_lt_numeric:
  "list_all (\<lambda>v. num_of v \<noteq> None) vs \<Longrightarrow> num_of bound \<noteq> None
   \<Longrightarrow> \<exists>b. any_lt vs bound = Inr b"
  by (induction vs) (auto simp: py_lt_def split: bool.splits)

lemma column_numeric:
  assumes "list_all numeric_vitals ds" and "num_of dflt \<noteq> None"
    and "key \<in> set [''heartRate'', ''temperature'', ''bloodPressureSystolic'', ''oxygenSaturation'']"
  shows "list_all (\<lambda>v. num_of v \<noteq> None) (column key dflt ds)"
  using assms
  by (induction ds)
     (auto simp: column_def numeric_vitals_def get_or_def split: option.splits)

lemma slice_from_subset: "set (slice_from i xs) \<subseteq> set xs"
  by (auto simp: slice_from_def dest: in_set_dropD)

lemma list_all_slice: "list_all P xs \<Longrightarrow> list_all P (slice_from i xs)"
  using slice_from_subset[of i xs] by (auto simp: list_all_iff)

lemma predict_try_levels:
  "predict_try pd = Inr r \<Longrightarrow> 5 \<le> length pd \<Longrightarrow>
   overall_risk r \<in> set [''high'', ''medium'', ''low'', ''minimal'']
   \<and> data_points_analyzed r = Some (length pd)"
  by (auto simp: predict_try_def Let_def split: sum.splits if_splits)

lemma predict_try_numeric:
  assumes "5 \<le> length pd" and "list_all numeric_vitals pd"
  shows "\<exists>r. predict_try pd = Inr r"
proof -
  let ?recent = "slice_from (- 10) pd"
  have num: "list_all numeric_vitals ?recent"
    using assms(2) by (rule list_all_slice)
  obtain hr where hr: "any_gt (column ''heartRate'' (PInt 0) ?recent) (PInt 120) = Inr hr"
    using any_gt_numeric[OF column_numeric[OF num, of "PInt 0" "''heartRate''"], of "PInt 120"]
    by auto
  obtain temp where temp:
    "any_gt (column ''temperature'' (PFloat (365 / 10)) ?recent) (PFloat 38) = Inr temp"
    using any_gt_numeric[OF column_numeric[OF num, of "PFloat (365 / 10)" "''temperature''"],
            of "PFloat 38"]
    by auto
  obtain sys where sys:
    "any_gt (column ''bloodPressureSystolic'' (PInt 120) ?recent) (PInt 160) = Inr sys"
    using any_gt_numeric[OF column_numeric[OF num, of "PInt 120" "''bloodPressureSystolic''"],
            of "PInt 160"]
    by auto
  obtain spo2 where spo2:
    "any_lt (column ''oxygenSaturation'' (PInt 98) ?recent) (PInt 94) = Inr spo2"
    using any_lt_numeric[OF column_numeric[OF num, of "PInt 98" "''oxygenSaturation''"],
            of "PInt 94"]
    by auto
  show ?thesis
    using assms(1) hr temp sys spo2 by (simp add: predict_try_def Let_def)
qed

text \<open>
  C7. With fewer than 5 data points the risk forecast returns the insufficient-data
  result (\<open>overall_risk\<close> \<open>insufficient_data\<close>, \<open>risk_score\<close> 0), from the body of
  the function and not through its exception handler. With 5 or more it never reports
  insufficient data, and for readings whose vitals are numbers it returns a forecast: a
  risk level among high, medium, low and minimal, over all the data points. With fewer
  than 10 data points the trend analysis returns its insufficient-data result, again
  from the body. Both functions return a result on every input.
\<close>

theorem insufficient_data_is_a_result:
  "(length pd < 5 \<longrightarrow>
      predict_try pd =
        Inr \<lparr>overall_risk = ''insufficient_data'', risk_score = 0,
             message = Some ''Need at least 5 data points for risk prediction'',
             risk_factors = None, forecast_recommendations = None,
             prediction_confidence = None, data_points_analyzed = None\<rparr>
      \<and> overall_risk (predict_health_risks pd) = ''insufficient_data''
      \<and> risk_score (predict_health_risks pd) = 0)
   \<and> (5 \<le> length pd \<longrightarrow> overall_risk (predict_health_risks pd) \<noteq> ''insufficient_data'')
   \<and> (5 \<le> length pd \<and> list_all numeric_vitals pd \<longrightarrow>
        predict_try pd = Inr (predict_health_risks pd)
      \<and> overall_risk (predict_health_risks pd) \<in> set [''high'', ''medium'', ''low'', ''minimal'']
      \<and> data_points_analyzed (predict_health_risks pd) = Some (length pd))
   \<and> (length pd < 10 \<longrightarrow>
        trends_try rnd now pd =
          Inr \<lparr>status = Some ''insufficient_data'',
               trend_message = Some ''Need at least 10 data points for trend analysis'',
               overall_trajectory = None, vital_trends = None, summary_of_trends = None,
               analysis_period = None, last_updated = None\<rparr>
      \<and> status (analyze_health_trends rnd now pd) = Some ''insufficient_data'')"
proof (intro conjI impI)
  assume "length pd < 5"
  then show "predict_try pd =
        Inr \<lparr>overall_risk = ''insufficient_data'', risk_score = 0,
             message = Some ''Need at least 5 data points for risk prediction'',
             risk_factors = None, forecast_recommendations = None,
             prediction_confidence = None, data_points_analyzed = None\<rparr>"
    by (simp add: predict_try_def)
  then show "overall_risk (predict_health_risks pd) = ''insufficient_data''"
    and "risk_score (predict_health_risks pd) = 0"
    by (simp_all add: predict_health_risks_def)
next
  assume len: "5 \<le> length pd"
  show "overall_risk (predict_health_risks pd) \<noteq> ''insufficient_data''"
  proof (cases "predict_try pd")
    case (Inl e)
    then show ?thesis by (simp add: predict_health_risks_def)
  next
    case (Inr r)
    with predict_try_levels[OF Inr len] show ?thesis
      by (auto simp: predict_health_risks_def)
  qed
next
  assume a: "5 \<le> length pd \<and> list_all numeric_vitals pd"
  then obtain r where r: "predict_try pd = Inr r"
    using predict_try_numeric by blast
  then have eq: "predict_health_risks pd = r" by (simp add: predict_health_risks_def)
  show "predict_try pd = Inr (predict_health_risks pd)" using r eq by simp
  show "overall_risk (predict_health_risks pd) \<in> set [''high'', ''medium'', ''low'', ''minimal'']"
    and "data_points_analyzed (predict_health_risks pd) = Some (length pd)"
    using predict_try_levels[OF r] a eq by simp_all
next
  assume "length pd < 10"
  then show "trends_try rnd now pd =
          Inr \<lparr>status = Some ''insufficient_data'',
               trend_message = Some ''Need at least 10 data points for trend analysis'',
               overall_trajectory = None, vital_trends = None, summary_of_trends = None,
               analysis_period = None, last_updated = None\<rparr>"
    by (simp add: trends_try_def)
  then show "status (analyze_health_trends rnd now pd) = Some ''insufficient_data''"
    by (simp add: analyze_health_trends_def)
qed

theorem insufficient_data_is_a_result_witness:
  "length (replicate 4 test_data) < 5
   \<and> overall_risk (predict_health_risks (replicate 4 test_data)) = ''insufficient_data''
   \<and> risk_score (predict_health_risks (replicate 4 test_data)) = 0
   \<and> 5 \<le> length (replicate 6 test_data)
   \<and> list_all numeric_vitals (replicate 6 test_data)
   \<and> predict_try (replicate 6 test_data) = Inr (predict_health_risks (replicate 6 test_data))
   \<and> data_points_analyzed (predict_health_risks (replicate 6 test_data)) = Some 6
   \<and> length (replicate 6 test_data) < 10
   \<and> status (analyze_health_trends round2 ''2025-01-01T12:00:00'' (replicate 6 test_data))
       = Some ''insufficient_data''"
proof -
  have n: "list_all numeric_vitals (replicate 6 test_data)"
    by (simp add: list_all_iff numeric_vitals_def test_data_def)
  show ?thesis
    using n insufficient_data_is_a_result[of "replicate 4 test_data"]
      insufficient_data_is_a_result[of "replicate 6 test_data" round2 "''2025-01-01T12:00:00''"]
    by simp
qed

lemma last_quarter_drop:
  assumes "5 \<le> length vs"
  shows "last_quarter vs = drop (length vs - (length vs + 3) div 4) vs"
proof -
  let ?n = "length vs"
  have "(- int ?n) div 4 = - int ((?n + 3) div 4)" by presburger
  moreover have "(?n + 3) div 4 \<le> ?n" by presburger
  ultimately have "nat (max 0 (int ?n + (- int ?n) div 4)) = ?n - (?n + 3) div 4"
    by (simp add: max_def nat_diff_distrib')
  moreover have "(- int ?n) div 4 < 0" using assms by presburger
  ultimately show ?thesis using assms by (simp add: last_quarter_def slice_from_def)
qed

text \<open>
  C8. The direction of a vital in \<open>_analyze_trends\<close>: \<open>insufficient_data\<close> for fewer
  than 5 values. For 5 or more, the first quarter is the first \<open>n div 4\<close> values and the
  last quarter is the last \<open>n / 4\<close> values, rounded up; both hold at least one value;
  and the direction is \<open>increasing\<close> when the mean of the last quarter is above 1.05
  times the mean of the first, \<open>decreasing\<close> when it is below 0.95 times that mean, and
  \<open>stable\<close> otherwise. Each vital of the summary gets the direction of its own values.
\<close>

theorem trend_direction:
  "(length vs < 5 \<longrightarrow> trend_of vs = ''insufficient_data'')
   \<and> (5 \<le> length vs \<longrightarrow>
        first_quarter vs = take (length vs div 4) vs
      \<and> last_quarter vs = drop (length vs - (length vs + 3) div 4) vs
      \<and> first_quarter vs \<noteq> [] \<and> last_quarter vs \<noteq> []
      \<and> trend_of vs =
          (if average (last_quarter vs) > average (first_quarter vs) * (105 / 100)
           then ''increasing''
           else if average (last_quarter vs) < average (first_quarter vs) * (95 / 100)
           then ''decreasing''
           else ''stable''))
   \<and> map_of (analyze_trends vitals) vital = map_option trend_of (map_of vitals vital)"
proof (intro conjI impI)
  show "map_of (analyze_trends vitals) vital = map_option trend_of (map_of vitals vital)"
    by (induction vitals) (auto simp: analyze_trends_def)
next
  assume "length vs < 5"
  then show "trend_of vs = ''insufficient_data''" by (simp add: trend_of_def)
next
  assume len: "5 \<le> length vs"
  then show fq: "first_quarter vs = take (length vs div 4) vs"
    by (simp add: first_quarter_def)
  show lq: "last_quarter vs = drop (length vs - (length vs + 3) div 4) vs"
    using len by (rule last_quarter_drop)
  have "0 < length vs div 4" using len by presburger
  then show "first_quarter vs \<noteq> []" using len unfolding fq by auto
  have "length vs - (length vs + 3) div 4 < length vs" using len by presburger
  then show "last_quarter vs \<noteq> []" unfolding lq by simp
  show "trend_of vs =
          (if average (last_quarter vs) > average (first_quarter vs) * (105 / 100)
           then ''increasing''
           else if average (last_quarter vs) < average (first_quarter vs) * (95 / 100)
           then ''decreasing''
           else ''stable'')"
    using len by (simp add: trend_of_def Let_def)
qed

theorem trend_direction_witness:
  "length [70, 71, 72, 73 :: rat] < 5
   \<and> trend_of [70, 71, 72, 73] = ''insufficient_data''
   \<and> 5 \<le> length [100, 100, 100, 200, 100 :: rat]
   \<and> first_quarter [100, 100, 100, 200, 100] = [100]
   \<and> last_quarter [100, 100, 100, 200, 100] = [200, 100]
   \<and> trend_of [100, 100, 100, 200, 100] = ''increasing''"
  using trend_direction[of "[70, 71, 72, 73]"] trend_direction[of "[100, 100, 100, 200, 100]"]
  by (simp add: average_def)

end
